theory Spec2Isabelle
  imports Main
begin

section \<open>kubeval command line driver (main.go)\<close>

text \<open>
  A shallow embedding of \<^verbatim>\<open>main.go\<close>: the \<^verbatim>\<open>Run\<close> closure of \<^verbatim>\<open>RootCmd\<close>,
  \<^verbatim>\<open>logResults\<close>, \<^verbatim>\<open>aggregateFiles\<close> and \<^verbatim>\<open>earlyExit\<close>.  Everything the
  program obtains from outside (standard input, the file system, the validation engine) is a
  field of an environment record; every call that leaves the program (a log line, a file read,
  a validator call, the construction of the schema cache) is appended to a trace.
\<close>

subsection \<open>Data\<close>

text \<open>
  \<^verbatim>\<open>kubeval.ValidationResult\<close>: the four fields \<^verbatim>\<open>main.go\<close> reads.  The error
  descriptions are kept as the strings that \<^verbatim>\<open>log.Info("--->", desc)\<close> prints.
\<close>

record ValidationResult =
  FileName :: string
  Kind :: string
  ValidatedAgainstSchema :: bool
  Errors :: "string list"

text \<open>
  \<^verbatim>\<open>kubeval.Config\<close>: \<^verbatim>\<open>main.go\<close> writes \<^verbatim>\<open>config.FileName\<close> and reads
  \<^verbatim>\<open>config.ExitOnError\<close>; the other fields are constant during a run and are part of
  the validator of the environment.
\<close>

record Config =
  cfgFileName :: string
  ExitOnError :: bool

text \<open>
  Go error values: the sentinel \<^verbatim>\<open>filepath.SkipDir\<close>, and any other error with the text
  its \<^verbatim>\<open>Error()\<close> method returns.
\<close>

datatype error = SkipDir | OtherError string

fun Error_msg :: "error \<Rightarrow> string" where
  "Error_msg SkipDir = ''skip this directory''"
| "Error_msg (OtherError m) = m"

text \<open>The four printers of package \<^verbatim>\<open>log\<close>; a printed line is a level and its arguments.\<close>

datatype level = Error | Warn | Info | Success

text \<open>
  The trace of a run.  A file read records the file name and the error of
  \<^verbatim>\<open>ioutil.ReadFile\<close>.  A validator call records the address of the cache it was given, the
  configuration and the bytes, the contents of the cache before and after the call, and what the
  call returned (\<^verbatim>\<open>results, err\<close>).
\<close>

datatype 'c event =
    EvLog level "string list"
  | EvNewSchemaCache nat
  | EvReadFile string "error option"
  | EvValidate nat Config string 'c 'c "ValidationResult list \<times> error option"

subsection \<open>logResults\<close>

text \<open>
  \<^verbatim>\<open>func logResults(results []kubeval.ValidationResult, success bool) bool\<close>
  (lines 113 to 130): one pass over the results, the \<^verbatim>\<open>if\<close>/\<^verbatim>\<open>else if\<close> chain in
  the order of the source; the lines printed are appended to the trace.
\<close>

fun logResults :: "ValidationResult list \<Rightarrow> bool \<Rightarrow> 'c event list \<Rightarrow> bool \<times> 'c event list" where
  "logResults [] success tr = (success, tr)"
| "logResults (result # results) success tr =
     (if length (Errors result) > 0 then
        logResults results False
          (tr @ [EvLog Warn [''The file'', FileName result, ''contains an invalid'', Kind result]]
              @ map (\<lambda>desc. EvLog Info [''--->'', desc]) (Errors result))
      else if Kind result = '''' then
        logResults results success
          (tr @ [EvLog Success [''The file'', FileName result, ''contains an empty YAML document'']])
      else if \<not> ValidatedAgainstSchema result then
        logResults results success
          (tr @ [EvLog Warn [''The file'', FileName result, ''containing a'', Kind result,
                             ''was not validated against a schema'']])
      else
        logResults results success
          (tr @ [EvLog Success [''The file'', FileName result, ''contains a valid'', Kind result]]))"

text \<open>
  The outcome categories of the specification (section 4.3), in its priority order, and what
  the specification says is reported for each.
\<close>

datatype category = INVALID | EMPTY_DOCUMENT | SKIPPED_NO_SCHEMA | VALID

definition category_spec :: "ValidationResult \<Rightarrow> category" where
  "category_spec r =
     (if Errors r \<noteq> [] then INVALID
      else if Kind r = [] then EMPTY_DOCUMENT
      else if \<not> ValidatedAgainstSchema r then SKIPPED_NO_SCHEMA
      else VALID)"

fun emission :: "category \<Rightarrow> ValidationResult \<Rightarrow> 'c event list" where
  "emission INVALID r =
     EvLog Warn [''The file'', FileName r, ''contains an invalid'', Kind r]
       # map (\<lambda>desc. EvLog Info [''--->'', desc]) (Errors r)"
| "emission EMPTY_DOCUMENT r =
     [EvLog Success [''The file'', FileName r, ''contains an empty YAML document'']]"
| "emission SKIPPED_NO_SCHEMA r =
     [EvLog Warn [''The file'', FileName r, ''containing a'', Kind r,
                  ''was not validated against a schema'']]"
| "emission VALID r =
     [EvLog Success [''The file'', FileName r, ''contains a valid'', Kind r]]"

subsection \<open>The error accumulator (package go-multierror)\<close>

text \<open>
  Modelled from the spec: package \<^verbatim>\<open>github.com/hashicorp/go-multierror\<close>
  (\<^verbatim>\<open>Append\<close>, \<^verbatim>\<open>ErrorOrNil\<close>, \<^verbatim>\<open>Error\<close>) is not among the sources.  Sections 3
  and 4.4 of the specification: an ordered, append-only collection of errors; zero errors give
  "no error", one or more give one value whose text holds every message.  The text is the list
  format of the package: \<^verbatim>\<open>"%d errors occurred:\n\t* m1\n\t* m2\n\n"\<close>, with
  \<^verbatim>\<open>"1 error occurred:"\<close> for a single error.  A \<^verbatim>\<open>*multierror.Error\<close> that may be
  nil is a \<open>multierror option\<close>.
\<close>

datatype multierror = MultiError "error list"

fun component_errors :: "multierror \<Rightarrow> error list" where
  "component_errors (MultiError es) = es"

fun Append :: "multierror option \<Rightarrow> error \<Rightarrow> multierror option" where
  "Append None e = Some (MultiError [e])"
| "Append (Some (MultiError es)) e = Some (MultiError (es @ [e]))"

fun ErrorOrNil :: "multierror option \<Rightarrow> multierror option" where
  "ErrorOrNil None = None"
| "ErrorOrNil (Some (MultiError es)) = (if length es = 0 then None else Some (MultiError es))"

text \<open>\<^verbatim>\<open>%d\<close> of a length: the decimal digits.\<close>

definition digit_char :: "nat \<Rightarrow> char" where
  "digit_char d = ''0123456789'' ! d"

fun decimal :: "nat \<Rightarrow> string" where
  "decimal n = (if n < 10 then [digit_char n] else decimal (n div 10) @ [digit_char (n mod 10)])"

declare decimal.simps [simp del]

fun Join_strings :: "string list \<Rightarrow> string \<Rightarrow> string" where
  "Join_strings [] sep = []"
| "Join_strings [x] sep = x"
| "Join_strings (x # y # ys) sep = x @ sep @ Join_strings (y # ys) sep"

definition newline_tab :: string where
  "newline_tab = [CHR 0x0A, CHR 0x09]"

definition two_newlines :: string where
  "two_newlines = [CHR 0x0A, CHR 0x0A]"

definition ListFormatFunc :: "error list \<Rightarrow> string" where
  "ListFormatFunc es =
     (if length es = 1 then
        ''1 error occurred:'' @ newline_tab @ ''* '' @ Error_msg (es ! 0) @ two_newlines
      else
        decimal (length es) @ '' errors occurred:'' @ newline_tab
          @ Join_strings (map (\<lambda>err. ''* '' @ Error_msg err) es) newline_tab @ two_newlines)"

fun Error_text :: "multierror \<Rightarrow> string" where
  "Error_text (MultiError es) = ListFormatFunc es"

text \<open>
  The words of the specification for the text of a combined error: it holds every message
  verbatim, in the order of accumulation and without overlap.  \<open>occur_in_order ms t\<close> says
  that \<open>t\<close> is \<open>p0 @ m1 @ p1 @ m2 @ \<dots> @ mn @ pn\<close> for some paddings.
\<close>

fun occur_in_order :: "string list \<Rightarrow> string \<Rightarrow> bool" where
  "occur_in_order [] t = True"
| "occur_in_order (m # ms) t =
     (\<exists>i \<in> {0 ..< Suc (length t)}. take (length m) (drop i t) = m
        \<and> occur_in_order ms (drop (i + length m) t))"

subsection \<open>The file system and filepath.Walk\<close>

text \<open>
  What \<^verbatim>\<open>os.Lstat\<close> and the directory listing show below a path.  A path is missing
  (\<^verbatim>\<open>Lstat\<close> fails with the given message), or it is an entry that is not a directory
  (a regular file, a symbolic link, which \<^verbatim>\<open>Lstat\<close> does not follow, or a pipe, socket or
  device), or a directory with its entries in the sorted order of \<^verbatim>\<open>readDirNames\<close>, or
  a directory that cannot be listed.  Every entry carries its base name.
\<close>

datatype entry_type = Regular | Symlink | Special

datatype tree =
    Missing string string
  | NonDir string entry_type
  | Dir string "tree list"
  | UnreadableDir string string

text \<open>\<^verbatim>\<open>os.FileInfo\<close>: the methods \<^verbatim>\<open>Name()\<close>, \<^verbatim>\<open>IsDir()\<close> and
  \<^verbatim>\<open>Mode().IsRegular()\<close>.\<close>

record FileInfo =
  Name :: string
  IsDir :: bool
  IsRegular :: bool

fun entry_name :: "tree \<Rightarrow> string" where
  "entry_name (Missing n m) = n"
| "entry_name (NonDir n t) = n"
| "entry_name (Dir n ts) = n"
| "entry_name (UnreadableDir n m) = n"

fun Lstat :: "tree \<Rightarrow> FileInfo option \<times> error option" where
  "Lstat (Missing n m) = (None, Some (OtherError m))"
| "Lstat (NonDir n t) = (Some \<lparr>Name = n, IsDir = False, IsRegular = (t = Regular)\<rparr>, None)"
| "Lstat (Dir n ts) = (Some \<lparr>Name = n, IsDir = True, IsRegular = False\<rparr>, None)"
| "Lstat (UnreadableDir n m) = (Some \<lparr>Name = n, IsDir = True, IsRegular = False\<rparr>, None)"

text \<open>
  \<^verbatim>\<open>filepath.WalkFunc\<close>, with the variables the closure captures passed in and out.
\<close>

type_synonym 's WalkFunc = "string \<Rightarrow> FileInfo option \<Rightarrow> error option \<Rightarrow> 's \<Rightarrow> error option \<times> 's"

text \<open>
  \<^verbatim>\<open>filepath.walk\<close> and its loop over the names of a directory, from the Go standard
  library (\<^verbatim>\<open>path/filepath/path.go\<close>).  \<open>walk\<close> is entered with the result of
  \<^verbatim>\<open>Lstat\<close> on the path: where \<^verbatim>\<open>Lstat\<close> failed the library calls the function with
  the error instead of descending, which is the first equation.  A non-directory is passed to
  the function; a directory is listed, the function is called with the listing error if any,
  and the walk returns when either is an error; otherwise the entries are walked in order.  In
  the loop an error stops the walk, except \<^verbatim>\<open>SkipDir\<close> from a directory or from an entry
  whose \<^verbatim>\<open>Lstat\<close> failed.  \<open>J\<close> is \<^verbatim>\<open>filepath.Join\<close>.
\<close>

function walk :: "(string \<Rightarrow> string \<Rightarrow> string) \<Rightarrow> string \<Rightarrow> tree \<Rightarrow> 's WalkFunc \<Rightarrow> 's \<Rightarrow> error option \<times> 's"
  and walk_names :: "(string \<Rightarrow> string \<Rightarrow> string) \<Rightarrow> string \<Rightarrow> tree list \<Rightarrow> 's WalkFunc \<Rightarrow> 's \<Rightarrow> error option \<times> 's"
  where
  "walk J path (Missing n m) walkFn s = walkFn path None (Some (OtherError m)) s"
| "walk J path (NonDir n t) walkFn s = walkFn path (fst (Lstat (NonDir n t))) None s"
| "walk J path (UnreadableDir n m) walkFn s =
     walkFn path (fst (Lstat (UnreadableDir n m))) (Some (OtherError m)) s"
| "walk J path (Dir n ts) walkFn s =
     (case walkFn path (fst (Lstat (Dir n ts))) None s of
        (Some err1, s') \<Rightarrow> (Some err1, s')
      | (None, s') \<Rightarrow> walk_names J path ts walkFn s')"
| "walk_names J path [] walkFn s = (None, s)"
| "walk_names J path (t # ts) walkFn s =
     (case walk J (J path (entry_name t)) t walkFn s of
        (None, s') \<Rightarrow> walk_names J path ts walkFn s'
      | (Some err, s') \<Rightarrow>
          (case Lstat t of
             (_, Some _) \<Rightarrow>
               if err \<noteq> SkipDir then (Some err, s') else walk_names J path ts walkFn s'
           | (fileInfo, None) \<Rightarrow>
               if (case fileInfo of Some i \<Rightarrow> \<not> IsDir i | None \<Rightarrow> True) \<or> err \<noteq> SkipDir
               then (Some err, s') else walk_names J path ts walkFn s'))"
  by pat_completeness auto
termination
  by (relation "measure (\<lambda>x. case x of
         Inl (J, path, t, walkFn, s) \<Rightarrow> 2 * size t
       | Inr (J, path, ts, walkFn, s) \<Rightarrow> 2 * size_list size ts + 1)") auto

text \<open>\<^verbatim>\<open>filepath.Walk(root, walkFn)\<close>; \<open>t\<close> is what the file system holds at \<open>root\<close>.\<close>

definition Walk :: "(string \<Rightarrow> string \<Rightarrow> string) \<Rightarrow> string \<Rightarrow> tree \<Rightarrow> 's WalkFunc \<Rightarrow> 's \<Rightarrow> error option \<times> 's" where
  "Walk J root t walkFn s =
     (case walk J root t walkFn s of
        (Some err, s') \<Rightarrow> if err = SkipDir then (None, s') else (Some err, s')
      | (None, s') \<Rightarrow> (None, s'))"

subsection \<open>aggregateFiles\<close>

text \<open>
  \<^verbatim>\<open>strings.HasSuffix\<close>:
  \<^verbatim>\<open>len(s) >= len(suffix) && s[len(s)-len(suffix):] == suffix\<close>.
\<close>

definition HasSuffix :: "string \<Rightarrow> string \<Rightarrow> bool" where
  "HasSuffix s suffix \<longleftrightarrow> length s \<ge> length suffix \<and> drop (length s - length suffix) s = suffix"

text \<open>
  The function literal of lines 138 to 146; the captured variable \<^verbatim>\<open>files\<close> is the state.
  \<^verbatim>\<open>filepath.Walk\<close> passes a nil \<^verbatim>\<open>info\<close> only together with an error, so the last
  equation is never used by a walk (the source would dereference nil there).
\<close>

fun collect_yaml :: "string list WalkFunc" where
  "collect_yaml path info (Some err) files = (Some err, files)"
| "collect_yaml path (Some info) None files =
     (if \<not> IsDir info \<and> HasSuffix (Name info) ''.yaml''
      then (None, files @ [path]) else (None, files))"
| "collect_yaml path None None files = (Some (OtherError ''nil pointer dereference''), files)"

text \<open>
  The loop of lines 137 to 150 over the global \<^verbatim>\<open>directories\<close>; \<open>fs\<close> gives what the
  file system holds at a path.
\<close>

fun walk_directories ::
  "(string \<Rightarrow> string \<Rightarrow> string) \<Rightarrow> (string \<Rightarrow> tree) \<Rightarrow> string list \<Rightarrow> string list \<Rightarrow> multierror option
     \<Rightarrow> string list \<times> multierror option" where
  "walk_directories J fs [] files allErrors = (files, allErrors)"
| "walk_directories J fs (directory # rest) files allErrors =
     (case Walk J directory (fs directory) collect_yaml files of
        (Some err, files') \<Rightarrow> walk_directories J fs rest files' (Append allErrors err)
      | (None, files') \<Rightarrow> walk_directories J fs rest files' allErrors)"

text \<open>\<^verbatim>\<open>func aggregateFiles(args []string) ([]string, error)\<close>, lines 132 to 153.\<close>

definition aggregateFiles ::
  "(string \<Rightarrow> string \<Rightarrow> string) \<Rightarrow> (string \<Rightarrow> tree) \<Rightarrow> string list \<Rightarrow> string list
     \<Rightarrow> string list \<times> multierror option" where
  "aggregateFiles J fs directories args =
     (case walk_directories J fs directories args None of
        (files, allErrors) \<Rightarrow> (files, ErrorOrNil allErrors))"

subsection \<open>The environment and the state of a run\<close>

text \<open>
  What a run obtains from outside.  \<open>Stdin_Stat\<close> is \<^verbatim>\<open>os.Stdin.Stat()\<close>: whether the
  mode has \<^verbatim>\<open>os.ModeCharDevice\<close>, and the error.  \<open>Stdin_lines\<close> are the tokens of the
  \<^verbatim>\<open>bufio.Scanner\<close> on standard input.  \<open>Abs\<close> is \<^verbatim>\<open>filepath.Abs\<close> (line 88 drops
  its error), \<open>ReadFile\<close> is \<^verbatim>\<open>ioutil.ReadFile\<close>, \<open>FS\<close> is the file system below a
  path and \<open>Join\<close> is \<^verbatim>\<open>filepath.Join\<close>.  \<open>Fresh_cache\<close> is the contents of a cache
  made by \<^verbatim>\<open>kubeval.NewSchemaCache()\<close>; \<open>ValidateWithCache\<close> is the validation
  engine, which returns \<^verbatim>\<open>(results, err)\<close> and the contents it leaves in the cache it was
  given.  The remaining fields are the package variables at the start of \<^verbatim>\<open>Run\<close>.
\<close>

record 'c env =
  GOOS :: string
  Stdin_Stat :: "bool \<times> error option"
  Stdin_lines :: "string list"
  forceColor :: bool
  NoColor_initial :: bool
  directories :: "string list"
  viper_filename :: string
  config_initial :: Config
  Abs :: "string \<Rightarrow> string"
  ReadFile :: "string \<Rightarrow> string \<times> error option"
  FS :: "string \<Rightarrow> tree"
  Join :: "string \<Rightarrow> string \<Rightarrow> string"
  Fresh_cache :: 'c
  ValidateWithCache :: "string \<Rightarrow> 'c \<Rightarrow> Config \<Rightarrow> (ValidationResult list \<times> error option) \<times> 'c"

text \<open>
  The state of a run: the local \<^verbatim>\<open>success\<close>, the package variables \<^verbatim>\<open>config\<close> and
  \<^verbatim>\<open>color.NoColor\<close>, the store of schema caches (a cache is used through its address;
  \<open>next_addr\<close> is the first address not yet allocated) and the trace.
\<close>

record 'c state =
  success :: bool
  config :: Config
  NoColor :: bool
  heap :: "nat \<Rightarrow> 'c"
  next_addr :: nat
  trace :: "'c event list"

text \<open>A run either goes on, or the process has ended through \<^verbatim>\<open>os.Exit\<close> with a code.\<close>

datatype 'c flow = Exited int "'c state" | Running "'c state"

definition log :: "level \<Rightarrow> string list \<Rightarrow> 'c state \<Rightarrow> 'c state" where
  "log lv args st = st\<lparr>trace := trace st @ [EvLog lv args]\<rparr>"

text \<open>\<^verbatim>\<open>kubeval.NewSchemaCache()\<close>: a new object in the store; its address is returned.\<close>

definition NewSchemaCache :: "'c env \<Rightarrow> 'c state \<Rightarrow> nat \<times> 'c state" where
  "NewSchemaCache E st =
     (next_addr st,
      st\<lparr>heap := (heap st)(next_addr st := Fresh_cache E),
         next_addr := Suc (next_addr st),
         trace := trace st @ [EvNewSchemaCache (next_addr st)]\<rparr>)"

text \<open>
  A call \<^verbatim>\<open>kubeval.ValidateWithCache(bytes, schemaCache, config)\<close>: the engine works on
  the cache at the address it is given and leaves its new contents there.
\<close>

definition call_ValidateWithCache ::
  "'c env \<Rightarrow> string \<Rightarrow> nat \<Rightarrow> 'c state \<Rightarrow> (ValidationResult list \<times> error option) \<times> 'c state" where
  "call_ValidateWithCache E bytes schemaCache st =
     (case ValidateWithCache E bytes (heap st schemaCache) (config st) of
        (ret, c') \<Rightarrow>
          (ret,
           st\<lparr>heap := (heap st)(schemaCache := c'),
              trace := trace st @
                [EvValidate schemaCache (config st) bytes (heap st schemaCache) c' ret]\<rparr>))"

text \<open>\<^verbatim>\<open>func earlyExit()\<close>, lines 155 to 159.\<close>

definition earlyExit :: "'c state \<Rightarrow> 'c flow" where
  "earlyExit st = (if ExitOnError (config st) then Exited 1 st else Running st)"

subsection \<open>Run\<close>

text \<open>
  The body of the loop of lines 87 to 105 for one file name.  On a read error: the log line,
  \<^verbatim>\<open>earlyExit()\<close>, \<^verbatim>\<open>success = false\<close>, \<^verbatim>\<open>continue\<close>; the same on an error of
  the validator; otherwise \<^verbatim>\<open>success = logResults(results, success)\<close>.  \<open>Running\<close>
  is the state in which the next iteration starts.
\<close>

definition file_iteration :: "'c env \<Rightarrow> nat \<Rightarrow> string \<Rightarrow> 'c state \<Rightarrow> 'c flow" where
  "file_iteration E schemaCache fileName st =
     (let filePath = Abs E fileName;
          (fileContents, err) = ReadFile E filePath;
          st1 = st\<lparr>trace := trace st @ [EvReadFile fileName err]\<rparr>
      in case err of
           Some e \<Rightarrow>
             (case earlyExit (log Error [''Could not open file'', fileName] st1) of
                Exited code st2 \<Rightarrow> Exited code st2
              | Running st2 \<Rightarrow> Running (st2\<lparr>success := False\<rparr>))
         | None \<Rightarrow>
             (let st2 = st1\<lparr>config := (config st1)\<lparr>cfgFileName := fileName\<rparr>\<rparr>
              in case call_ValidateWithCache E fileContents schemaCache st2 of
                   ((results, Some e), st3) \<Rightarrow>
                     (case earlyExit (log Error [Error_msg e] st3) of
                        Exited code st4 \<Rightarrow> Exited code st4
                      | Running st4 \<Rightarrow> Running (st4\<lparr>success := False\<rparr>))
                 | ((results, None), st3) \<Rightarrow>
                     (case logResults results (success st3) (trace st3) of
                        (success', tr') \<Rightarrow> Running (st3\<lparr>success := success', trace := tr'\<rparr>))))"

text \<open>The loop \<^verbatim>\<open>for _, fileName := range files\<close>.\<close>

fun file_loop :: "'c env \<Rightarrow> nat \<Rightarrow> string list \<Rightarrow> 'c state \<Rightarrow> 'c flow" where
  "file_loop E schemaCache [] st = Running st"
| "file_loop E schemaCache (fileName # rest) st =
     (case file_iteration E schemaCache fileName st of
        Exited code st' \<Rightarrow> Exited code st'
      | Running st' \<Rightarrow> file_loop E schemaCache rest st')"

text \<open>The \<^verbatim>\<open>else\<close> branch of lines 76 to 106: explicit files and directories.\<close>

definition files_branch :: "'c env \<Rightarrow> string list \<Rightarrow> 'c state \<Rightarrow> 'c flow" where
  "files_branch E args st =
     (if length args < 1 \<and> length (directories E) < 1 then
        Exited 1 (log Error
          [''You must pass at least one file as an argument, or at least one directory to the directories flag'']
          st)
      else
        (case NewSchemaCache E st of
           (schemaCache, st1) \<Rightarrow>
             (case aggregateFiles (Join E) (FS E) (directories E) args of
                (files, Some err) \<Rightarrow>
                  file_loop E schemaCache files
                    ((log Error [Error_text err] st1)\<lparr>success := False\<rparr>)
              | (files, None) \<Rightarrow> file_loop E schemaCache files st1)))"

text \<open>The branch of lines 62 to 75: one document read from standard input.\<close>

definition stdin_branch :: "'c env \<Rightarrow> 'c state \<Rightarrow> 'c flow" where
  "stdin_branch E st =
     (let buffer = concat (map (\<lambda>text. text @ [CHR 0x0A]) (Stdin_lines E))
      in case NewSchemaCache E st of
           (schemaCache, st1) \<Rightarrow>
             (let st2 = st1\<lparr>config := (config st1)\<lparr>cfgFileName := viper_filename E\<rparr>\<rparr>
              in case call_ValidateWithCache E buffer schemaCache st2 of
                   ((results, Some e), st3) \<Rightarrow> Exited 1 (log Error [Error_msg e] st3)
                 | ((results, None), st3) \<Rightarrow>
                     (case logResults results (success st3) (trace st3) of
                        (success', tr') \<Rightarrow> Running (st3\<lparr>success := success', trace := tr'\<rparr>))))"

text \<open>The condition of line 62.\<close>

definition reads_stdin :: "'c env \<Rightarrow> string list \<Rightarrow> bool \<Rightarrow> bool" where
  "reads_stdin E args windowsStdinIssue \<longleftrightarrow>
     (length args < 1 \<or> args ! 0 = ''-'') \<and> \<not> windowsStdinIssue \<and> \<not> fst (Stdin_Stat E)"

text \<open>
  Lines 42 to 106 of \<^verbatim>\<open>Run\<close>: everything before the final test of \<^verbatim>\<open>success\<close>.  The
  result is \<open>Running\<close> with the state at line 107, or \<open>Exited\<close> where the source calls
  \<^verbatim>\<open>os.Exit\<close> before.
\<close>

definition initial_state :: "'c env \<Rightarrow> 'c state" where
  "initial_state E =
     \<lparr>success = True, config = config_initial E, NoColor = NoColor_initial E,
      heap = (\<lambda>a. Fresh_cache E), next_addr = 0, trace = []\<rparr>"

definition Run_body :: "'c env \<Rightarrow> string list \<Rightarrow> 'c flow" where
  "Run_body E args =
     (let st = initial_state E in
      case snd (Stdin_Stat E) of
        Some err \<Rightarrow>
          if GOOS E \<noteq> ''windows'' then Exited 1 (log Error [Error_msg err] st)
          else
            (let windowsStdinIssue = True;
                 st1 = (if forceColor E then st\<lparr>NoColor := False\<rparr> else st)
             in if reads_stdin E args windowsStdinIssue then stdin_branch E st1
                else files_branch E args st1)
      | None \<Rightarrow>
          (let windowsStdinIssue = False;
               st1 = (if forceColor E then st\<lparr>NoColor := False\<rparr> else st)
           in if reads_stdin E args windowsStdinIssue then stdin_branch E st1
              else files_branch E args st1))"

text \<open>
  \<^verbatim>\<open>Run\<close> with lines 107 to 109, and the exit code of the process: \<^verbatim>\<open>main\<close> returns
  after \<^verbatim>\<open>Run\<close>, which is exit code 0.
\<close>

definition Run :: "'c env \<Rightarrow> string list \<Rightarrow> 'c flow" where
  "Run E args =
     (case Run_body E args of
        Exited code st \<Rightarrow> Exited code st
      | Running st \<Rightarrow> if \<not> success st then Exited 1 st else Running st)"

fun exit_code :: "'c flow \<Rightarrow> int" where
  "exit_code (Exited code st) = code"
| "exit_code (Running st) = 0"

fun final_state :: "'c flow \<Rightarrow> 'c state" where
  "final_state (Exited code st) = st"
| "final_state (Running st) = st"

subsection \<open>Notions of the specification\<close>

text \<open>
  The entries below a path in the order in which \<^verbatim>\<open>filepath.Walk\<close> meets them: a
  directory before its entries, the entries in their listed order, each with its path.
\<close>

fun entries :: "(string \<Rightarrow> string \<Rightarrow> string) \<Rightarrow> string \<Rightarrow> tree \<Rightarrow> (string \<times> tree) list" where
  "entries J path (Dir n ts) =
     (path, Dir n ts) # concat (map (\<lambda>t. entries J (J path (entry_name t)) t) ts)"
| "entries J path (Missing n m) = [(path, Missing n m)]"
| "entries J path (NonDir n k) = [(path, NonDir n k)]"
| "entries J path (UnreadableDir n m) = [(path, UnreadableDir n m)]"

text \<open>The error an entry gives to the walk: its \<^verbatim>\<open>Lstat\<close> or its listing fails.\<close>

fun entry_error :: "tree \<Rightarrow> error option" where
  "entry_error (Missing n m) = Some (OtherError m)"
| "entry_error (UnreadableDir n m) = Some (OtherError m)"
| "entry_error (NonDir n k) = None"
| "entry_error (Dir n ts) = None"

definition fails :: "string \<times> tree \<Rightarrow> bool" where
  "fails e \<longleftrightarrow> entry_error (snd e) \<noteq> None"

text \<open>The entries met before the first failing one, and the error of that one.\<close>

definition visited :: "(string \<times> tree) list \<Rightarrow> (string \<times> tree) list" where
  "visited es = takeWhile (\<lambda>e. \<not> fails e) es"

definition first_failure :: "(string \<times> tree) list \<Rightarrow> error option" where
  "first_failure es =
     (case dropWhile (\<lambda>e. \<not> fails e) es of [] \<Rightarrow> None | e # _ \<Rightarrow> entry_error (snd e))"

text \<open>
  An entry qualifies when it is not a directory and its name ends with \<^verbatim>\<open>.yaml\<close>; it is a
  regular file when \<^verbatim>\<open>Lstat\<close> succeeds with a regular mode.
\<close>

fun qualifies :: "string \<times> tree \<Rightarrow> bool" where
  "qualifies (p, NonDir n k) = HasSuffix n ''.yaml''"
| "qualifies (p, Missing n m) = False"
| "qualifies (p, UnreadableDir n m) = False"
| "qualifies (p, Dir n ts) = False"

fun regular_file :: "string \<times> tree \<Rightarrow> bool" where
  "regular_file (p, t) = (case fst (Lstat t) of Some info \<Rightarrow> IsRegular info | None \<Rightarrow> False)"

definition collected :: "(string \<times> tree) list \<Rightarrow> string list" where
  "collected es = map fst (filter qualifies (visited es))"

text \<open>What one directory gives: the paths its walk appends, and the error of its walk.\<close>

definition walk_files :: "(string \<Rightarrow> string \<Rightarrow> string) \<Rightarrow> (string \<Rightarrow> tree) \<Rightarrow> string \<Rightarrow> string list" where
  "walk_files J fs directory = snd (Walk J directory (fs directory) collect_yaml [])"

definition walk_error :: "(string \<Rightarrow> string \<Rightarrow> string) \<Rightarrow> (string \<Rightarrow> tree) \<Rightarrow> string \<Rightarrow> error option" where
  "walk_error J fs directory = fst (Walk J directory (fs directory) collect_yaml [])"

text \<open>
  What a trace shows of the three failures of the specification: a source could not be read,
  a validator call failed, a document forwarded to \<^verbatim>\<open>logResults\<close> had errors.
\<close>

fun read_failed :: "'c event \<Rightarrow> bool" where
  "read_failed (EvReadFile f (Some e)) = True"
| "read_failed _ = False"

fun invocation_failed :: "'c event \<Rightarrow> bool" where
  "invocation_failed (EvValidate a cfg bytes c c' (rs, Some e)) = True"
| "invocation_failed _ = False"

fun document_invalid :: "'c event \<Rightarrow> bool" where
  "document_invalid (EvValidate a cfg bytes c c' (rs, None)) = list_ex (\<lambda>r. Errors r \<noteq> []) rs"
| "document_invalid _ = False"

text \<open>The file names read, and the file names given to the validator, in order.\<close>

fun read_attempts :: "'c event list \<Rightarrow> string list" where
  "read_attempts [] = []"
| "read_attempts (EvReadFile f e # tr) = f # read_attempts tr"
| "read_attempts (_ # tr) = read_attempts tr"

fun validated_files :: "'c event list \<Rightarrow> string list" where
  "validated_files [] = []"
| "validated_files (EvValidate a cfg bytes c c' ret # tr) = cfgFileName cfg # validated_files tr"
| "validated_files (_ # tr) = validated_files tr"

text \<open>
  The discipline of the schema cache, read off a trace from its start: no cache yet, or the
  one cache with its address and present contents, or a violation.  Constructing a second
  cache, reading a file or calling the validator before the cache exists, and calling the
  validator with another address or with contents other than those the last call left (those
  of a fresh cache at the first call) are violations.
\<close>

datatype 'c tracker = Violated | NoCache | Cache nat 'c

fun track :: "'c \<Rightarrow> 'c tracker \<Rightarrow> 'c event \<Rightarrow> 'c tracker" where
  "track fresh Violated ev = Violated"
| "track fresh NoCache (EvNewSchemaCache a) = Cache a fresh"
| "track fresh NoCache (EvLog lv args) = NoCache"
| "track fresh NoCache (EvReadFile f e) = Violated"
| "track fresh NoCache (EvValidate a cfg bytes c c' ret) = Violated"
| "track fresh (Cache a c) (EvNewSchemaCache b) = Violated"
| "track fresh (Cache a c) (EvLog lv args) = Cache a c"
| "track fresh (Cache a c) (EvReadFile f e) = Cache a c"
| "track fresh (Cache a c) (EvValidate b cfg bytes c0 c' ret) =
     (if b = a \<and> c0 = c then Cache a c' else Violated)"

fun constructions :: "'c event list \<Rightarrow> nat" where
  "constructions [] = 0"
| "constructions (EvNewSchemaCache a # tr) = Suc (constructions tr)"
| "constructions (_ # tr) = constructions tr"

text \<open>
  \<^verbatim>\<open>filepath.Join\<close> on a clean path and a plain name, for the examples.
\<close>

definition slash_join :: "string \<Rightarrow> string \<Rightarrow> string" where
  "slash_join p n = p @ ''/'' @ n"

subsection \<open>Example environments\<close>

text \<open>
  A small world for the concrete runs below.  The file system has a directory \<^verbatim>\<open>d\<close> with
  a subdirectory that holds an entry which cannot be listed, a directory \<^verbatim>\<open>e\<close>, and
  nothing else.  The schema cache of the example validator counts the calls it has served.
\<close>

definition example_FS :: "string \<Rightarrow> tree" where
  "example_FS d =
     (if d = ''d'' then
        Dir ''d''
          [NonDir ''a.yaml'' Regular,
           Dir ''sub''
             [NonDir ''b.yaml'' Regular,
              UnreadableDir ''locked'' ''open d/sub/locked: permission denied'',
              NonDir ''c.yaml'' Regular],
           NonDir ''z.yaml'' Regular]
      else if d = ''e'' then Dir ''e'' [NonDir ''e.yaml'' Regular]
      else Missing d (''lstat '' @ d @ '': no such file or directory''))"

definition example_ReadFile :: "string \<Rightarrow> string \<times> error option" where
  "example_ReadFile path =
     (if path = ''/work/missing.yaml'' then
        ([], Some (OtherError ''open /work/missing.yaml: no such file or directory''))
      else if path = ''/work/bad.yaml'' then (''bad'', None)
      else if path = ''/work/garbage.yaml'' then (''garbage'', None)
      else (''good'', None))"

definition example_validator ::
  "string \<Rightarrow> nat \<Rightarrow> Config \<Rightarrow> (ValidationResult list \<times> error option) \<times> nat" where
  "example_validator bytes c cfg =
     (if bytes = ''garbage'' then (([], Some (OtherError ''Failed to decode YAML'')), Suc c)
      else if bytes = ''bad'' then
        (([\<lparr>FileName = cfgFileName cfg, Kind = ''Pod'', ValidatedAgainstSchema = True,
            Errors = [''spec: containers is required'']\<rparr>], None), Suc c)
      else
        (([\<lparr>FileName = cfgFileName cfg, Kind = ''Pod'', ValidatedAgainstSchema = True,
            Errors = []\<rparr>], None), Suc c))"

definition example_env :: "bool \<Rightarrow> string list \<Rightarrow> nat env" where
  "example_env exitOnError dirs =
     \<lparr>GOOS = ''linux'', Stdin_Stat = (True, None), Stdin_lines = [], forceColor = False,
      NoColor_initial = True, directories = dirs, viper_filename = ''stdin'',
      config_initial = \<lparr>cfgFileName = ''stdin'', ExitOnError = exitOnError\<rparr>,
      Abs = (\<lambda>f. ''/work/'' @ f), ReadFile = example_ReadFile, FS = example_FS,
      Join = slash_join, Fresh_cache = 0, ValidateWithCache = example_validator\<rparr>"

subsection \<open>Properties of the walk and of aggregateFiles\<close>

lemma fails_simps [simp]:
  "fails (p, Missing n m)" "fails (p, UnreadableDir n m)"
  "\<not> fails (p, NonDir n k)" "\<not> fails (p, Dir n ts)"
  by (simp_all add: fails_def)

lemma first_failure_Nil [simp]: "first_failure [] = None"
  by (simp add: first_failure_def)

lemma first_failure_Cons [simp]:
  "first_failure (e # es) = (if fails e then entry_error (snd e) else first_failure es)"
  by (simp add: first_failure_def)

lemma collected_Nil [simp]: "collected [] = []"
  by (simp add: collected_def visited_def)

lemma collected_Cons [simp]:
  "collected (e # es) =
     (if fails e then [] else if qualifies e then fst e # collected es else collected es)"
  by (simp add: collected_def visited_def)

lemma first_failure_append:
  "first_failure (xs @ ys) = (case first_failure xs of None \<Rightarrow> first_failure ys | Some e \<Rightarrow> Some e)"
  by (induction xs) (auto simp: fails_def split: option.splits)

lemma collected_append:
  "collected (xs @ ys) = (case first_failure xs of None \<Rightarrow> collected xs @ collected ys | Some e \<Rightarrow> collected xs)"
  by (induction xs) (auto simp: fails_def split: option.splits)

lemma entry_error_not_SkipDir: "entry_error t \<noteq> Some SkipDir"
  by (cases t) auto

lemma first_failure_not_SkipDir: "first_failure es \<noteq> Some SkipDir"
  by (induction es) (auto simp: entry_error_not_SkipDir)

lemma walk_collect:
  "walk J path t collect_yaml files =
     (first_failure (entries J path t), files @ collected (entries J path t))"
  "walk_names J path ts collect_yaml files =
     (first_failure (concat (map (\<lambda>t. entries J (J path (entry_name t)) t) ts)),
      files @ collected (concat (map (\<lambda>t. entries J (J path (entry_name t)) t) ts)))"
proof (induction J path t "collect_yaml" files and J path ts "collect_yaml" files rule: walk_walk_names.induct)
  case (1 J path n m s)
  then show ?case by simp
next
  case (2 J path n t s)
  then show ?case by simp
next
  case (3 J path n m s)
  then show ?case by simp
next
  case (4 J path n ts s)
  then show ?case by simp
next
  case (5 J path s)
  then show ?case by simp
next
  case (6 J path t ts s)
  show ?case
  proof (cases "first_failure (entries J (J path (entry_name t)) t)")
    case None
    then show ?thesis using 6 by (simp add: first_failure_append collected_append)
  next
    case (Some e)
    then have "e \<noteq> SkipDir" using first_failure_not_SkipDir by metis
    then show ?thesis using 6 Some
      by (cases t) (simp_all add: first_failure_append collected_append)
  qed
qed


lemma Walk_collect:
  "Walk J root t collect_yaml files =
     (first_failure (entries J root t), files @ collected (entries J root t))"
  using first_failure_not_SkipDir [of "entries J root t"]
  by (auto simp: Walk_def walk_collect split: option.splits)

lemma walk_files_eq: "walk_files J fs d = collected (entries J d (fs d))"
  by (simp add: walk_files_def Walk_collect)

lemma walk_error_eq: "walk_error J fs d = first_failure (entries J d (fs d))"
  by (simp add: walk_error_def Walk_collect)

lemma Walk_split:
  "Walk J d (fs d) collect_yaml files = (walk_error J fs d, files @ walk_files J fs d)"
  by (simp add: Walk_collect walk_files_eq walk_error_eq)

lemma walk_directories_eq:
  "walk_directories J fs dirs files allErrors =
     (files @ concat (map (walk_files J fs) dirs),
      foldl Append allErrors (List.map_filter (walk_error J fs) dirs))"
  by (induction dirs arbitrary: files allErrors)
     (auto simp: Walk_split split: option.splits)

lemma foldl_Append_Some:
  "foldl Append (Some (MultiError es)) errs = Some (MultiError (es @ errs))"
  by (induction errs arbitrary: es) auto

lemma foldl_Append_None:
  "foldl Append None errs = (if errs = [] then None else Some (MultiError errs))"
  by (cases errs) (auto simp: foldl_Append_Some)

lemma ErrorOrNil_foldl:
  "ErrorOrNil (foldl Append None errs) = (if errs = [] then None else Some (MultiError errs))"
  by (cases errs) (auto simp: foldl_Append_Some)

lemma aggregateFiles_eq:
  "aggregateFiles J fs dirs args =
     (args @ concat (map (walk_files J fs) dirs),
      (let errs = List.map_filter (walk_error J fs) dirs
       in if errs = [] then None else Some (MultiError errs)))"
  by (simp add: aggregateFiles_def walk_directories_eq ErrorOrNil_foldl Let_def)

lemma visited_no_failure: "first_failure es = None \<Longrightarrow> visited es = es"
  by (induction es) (auto simp: visited_def fails_def split: if_splits)

lemma HasSuffix_iff: "HasSuffix s suf \<longleftrightarrow> (\<exists>p. s = p @ suf)"
proof
  assume "HasSuffix s suf"
  then have "s = take (length s - length suf) s @ suf"
    by (metis HasSuffix_def append_take_drop_id)
  then show "\<exists>p. s = p @ suf" ..
next
  assume "\<exists>p. s = p @ suf"
  then show "HasSuffix s suf" by (auto simp: HasSuffix_def)
qed

lemma HasSuffix_yml_not_yaml: "HasSuffix n ''.yml'' \<Longrightarrow> \<not> HasSuffix n ''.yaml''"
proof
  assume "HasSuffix n ''.yml''" and "HasSuffix n ''.yaml''"
  then obtain p q where "n = p @ ''.yml''" and "n = q @ ''.yaml''"
    by (auto simp: HasSuffix_iff)
  then have "rev (p @ ''.yml'') = rev (q @ ''.yaml'')" by simp
  then show False by simp
qed

subsection \<open>Properties of logResults\<close>

lemma logResults_fst:
  "fst (logResults rs s tr) = (s \<and> (\<forall>r \<in> set rs. Errors r = []))"
  by (induction rs arbitrary: s tr) auto

lemma logResults_snd:
  "snd (logResults rs s tr) = tr @ concat (map (\<lambda>r. emission (category_spec r) r) rs)"
  by (induction rs arbitrary: s tr) (auto simp: category_spec_def)

text \<open>
  Claim C2.  Every validation result falls into exactly one of the four categories, decided in
  the priority order errors, empty kind, not validated, valid: what \<^verbatim>\<open>logResults\<close>
  prints for a result is the report of that category and of no other, the success flag becomes
  false for INVALID and is left as it was for the other three.
\<close>

theorem C2_classifier_priority:
  "logResults [r] s tr =
     ((if category_spec r = INVALID then False else s), tr @ emission (category_spec r) r)
   \<and> (category_spec r = INVALID \<longleftrightarrow> Errors r \<noteq> [])
   \<and> (category_spec r = EMPTY_DOCUMENT \<longleftrightarrow> Errors r = [] \<and> Kind r = [])
   \<and> (category_spec r = SKIPPED_NO_SCHEMA \<longleftrightarrow>
        Errors r = [] \<and> Kind r \<noteq> [] \<and> \<not> ValidatedAgainstSchema r)
   \<and> (category_spec r = VALID \<longleftrightarrow>
        Errors r = [] \<and> Kind r \<noteq> [] \<and> ValidatedAgainstSchema r)
   \<and> (\<forall>c c'. c \<noteq> c' \<longrightarrow> emission c r \<noteq> (emission c' r :: 'c event list))"
proof -
  have distinct_emission: "c \<noteq> c' \<Longrightarrow> emission c r \<noteq> (emission c' r :: 'c event list)" for c c'
    by (cases c; cases c') auto
  show ?thesis
    using distinct_emission by (auto simp: category_spec_def)
qed

text \<open>
  Claim C9.  The success flag is monotone: the fold returns true only if the incoming flag was
  true and no result has errors; from false it stays false whatever the results are; on the
  empty list it returns the incoming flag.
\<close>

theorem C9_success_monotone:
  "(fst (logResults rs s tr) \<longleftrightarrow> s \<and> (\<forall>r \<in> set rs. Errors r = []))
   \<and> \<not> fst (logResults rs False tr)
   \<and> fst (logResults [] s tr) = s"
  by (simp add: logResults_fst)

theorem C9_success_monotone_witness:
  "fst (logResults
      [\<lparr>FileName = ''a.yaml'', Kind = ''Pod'', ValidatedAgainstSchema = True, Errors = []\<rparr>,
       \<lparr>FileName = ''a.yaml'', Kind = '''', ValidatedAgainstSchema = False, Errors = []\<rparr>]
      True ([] :: unit event list))
   \<and> \<not> fst (logResults
      [\<lparr>FileName = ''a.yaml'', Kind = ''Pod'', ValidatedAgainstSchema = True,
        Errors = [''spec: replicas is required'']\<rparr>,
       \<lparr>FileName = ''a.yaml'', Kind = ''Pod'', ValidatedAgainstSchema = True, Errors = []\<rparr>]
      True ([] :: unit event list))"
  using C9_success_monotone
    [of "[\<lparr>FileName = ''a.yaml'', Kind = ''Pod'', ValidatedAgainstSchema = True, Errors = []\<rparr>,
          \<lparr>FileName = ''a.yaml'', Kind = '''', ValidatedAgainstSchema = False, Errors = []\<rparr>]"
        True "[] :: unit event list"]
    C9_success_monotone
    [of "[\<lparr>FileName = ''a.yaml'', Kind = ''Pod'', ValidatedAgainstSchema = True,
           Errors = [''spec: replicas is required'']\<rparr>,
          \<lparr>FileName = ''a.yaml'', Kind = ''Pod'', ValidatedAgainstSchema = True, Errors = []\<rparr>]"
        True "[] :: unit event list"]
  by simp

subsection \<open>Properties of the error accumulator\<close>

lemma occur_in_order_Cons_iff:
  "occur_in_order (m # ms) t \<longleftrightarrow> (\<exists>p s. t = p @ m @ s \<and> occur_in_order ms s)"
proof
  assume "occur_in_order (m # ms) t"
  then obtain i where i: "take (length m) (drop i t) = m" "occur_in_order ms (drop (i + length m) t)"
    by auto
  have "t = take i t @ drop i t" by simp
  also have "drop i t = m @ drop (i + length m) t"
    by (metis i(1) append_take_drop_id drop_drop add.commute)
  finally show "\<exists>p s. t = p @ m @ s \<and> occur_in_order ms s" using i(2) by blast
next
  assume "\<exists>p s. t = p @ m @ s \<and> occur_in_order ms s"
  then obtain p s where t: "t = p @ m @ s" and s: "occur_in_order ms s" by blast
  have "length p \<in> {0 ..< Suc (length t)}" using t by simp
  moreover have "take (length m) (drop (length p) t) = m" using t by simp
  moreover have "occur_in_order ms (drop (length p + length m) t)" using t s by simp
  ultimately show "occur_in_order (m # ms) t"
    unfolding occur_in_order.simps by (intro bexI[of _ "length p"] conjI)
qed

lemma occur_in_order_prefix_pad: "occur_in_order ms t \<Longrightarrow> occur_in_order ms (p @ t)"
proof (cases ms)
  case Nil
  then show ?thesis by simp
next
  case (Cons m ms')
  assume "occur_in_order ms t"
  then obtain q s where "t = q @ m @ s" "occur_in_order ms' s"
    unfolding Cons occur_in_order_Cons_iff by blast
  then have "p @ t = (p @ q) @ m @ s \<and> occur_in_order ms' s" by simp
  then show ?thesis unfolding Cons occur_in_order_Cons_iff by blast
qed

lemma occur_in_order_suffix_pad: "occur_in_order ms t \<Longrightarrow> occur_in_order ms (t @ x)"
proof (induction ms arbitrary: t)
  case Nil
  then show ?case by simp
next
  case (Cons m ms)
  then obtain q s where t: "t = q @ m @ s" and s: "occur_in_order ms s"
    unfolding occur_in_order_Cons_iff by blast
  have "t @ x = q @ m @ (s @ x)" using t by simp
  moreover have "occur_in_order ms (s @ x)" using Cons.IH s by blast
  ultimately show ?case unfolding occur_in_order_Cons_iff by blast
qed

lemma occur_in_order_Join_strings:
  "occur_in_order (map Error_msg es) (Join_strings (map (\<lambda>err. ''* '' @ Error_msg err) es) sep)"
proof (induction es rule: induct_list012)
  case 1
  then show ?case by simp
next
  case (2 e)
  have "''* '' @ Error_msg e = ''* '' @ Error_msg e @ [] \<and> occur_in_order [] []" by simp
  then show ?case unfolding list.map Join_strings.simps occur_in_order_Cons_iff by blast
next
  case (3 e e' es)
  let ?rest = "Join_strings (map (\<lambda>err. ''* '' @ Error_msg err) (e' # es)) sep"
  have "occur_in_order (map Error_msg (e' # es)) (sep @ ?rest)"
    using 3 by (intro occur_in_order_prefix_pad)
  moreover have "Join_strings (map (\<lambda>err. ''* '' @ Error_msg err) (e # e' # es)) sep
      = ''* '' @ Error_msg e @ (sep @ ?rest)" by simp
  ultimately show ?case
    unfolding list.map(2)[of Error_msg e] occur_in_order_Cons_iff by blast
qed

lemma occur_in_order_ListFormatFunc:
  "es \<noteq> [] \<Longrightarrow> occur_in_order (map Error_msg es) (ListFormatFunc es)"
proof (cases "length es = 1")
  case True
  then obtain e where es: "es = [e]" by (cases es) auto
  have "ListFormatFunc [e] = (''1 error occurred:'' @ newline_tab @ ''* '') @ Error_msg e @ two_newlines
      \<and> occur_in_order [] two_newlines"
    by (simp add: ListFormatFunc_def)
  then show ?thesis unfolding es list.map occur_in_order_Cons_iff by blast
next
  case False
  have "occur_in_order (map Error_msg es)
     ((decimal (length es) @ '' errors occurred:'' @ newline_tab)
        @ (Join_strings (map (\<lambda>err. ''* '' @ Error_msg err) es) newline_tab @ two_newlines))"
    by (intro occur_in_order_prefix_pad occur_in_order_suffix_pad occur_in_order_Join_strings)
  then show ?thesis using False by (simp add: ListFormatFunc_def)
qed

text \<open>
  Claim C6.  The accumulator returns nil when no error was appended; after one or more it
  returns one combined error that holds exactly the appended errors, none dropped, none merged,
  in the order of appending, and whose text contains the message of each of them verbatim, one
  after the other in that order.
\<close>

theorem C6_error_accumulator:
  "ErrorOrNil (foldl Append None errs) = (if errs = [] then None else Some (MultiError errs))
   \<and> (errs \<noteq> [] \<longrightarrow> occur_in_order (map Error_msg errs) (Error_text (MultiError errs)))"
  by (simp add: ErrorOrNil_foldl occur_in_order_ListFormatFunc del: occur_in_order.simps)



theorem C6_error_accumulator_witness:
  "ErrorOrNil (foldl Append None
      [OtherError ''lstat d2: no such file or directory'', OtherError ''open d3: permission denied'',
       OtherError ''lstat d2: no such file or directory''])
     = Some (MultiError
      [OtherError ''lstat d2: no such file or directory'', OtherError ''open d3: permission denied'',
       OtherError ''lstat d2: no such file or directory''])
   \<and> occur_in_order
       (map Error_msg [OtherError ''lstat d2: no such file or directory'', OtherError ''open d3: permission denied'',
        OtherError ''lstat d2: no such file or directory''])
       (Error_text (MultiError
         [OtherError ''lstat d2: no such file or directory'', OtherError ''open d3: permission denied'',
          OtherError ''lstat d2: no such file or directory'']))"
proof -
  have ne: "[OtherError ''lstat d2: no such file or directory'', OtherError ''open d3: permission denied'',
          OtherError ''lstat d2: no such file or directory''] \<noteq> []" by simp
  show ?thesis
    using C6_error_accumulator
      [of "[OtherError ''lstat d2: no such file or directory'', OtherError ''open d3: permission denied'',
            OtherError ''lstat d2: no such file or directory'']"] ne
    by presburger
qed

subsection \<open>What a directory walk collects\<close>

lemma qualifies_iff: "qualifies (p, e) \<longleftrightarrow> (\<exists>n k. e = NonDir n k \<and> HasSuffix n ''.yaml'')"
  by (cases e) auto

lemma yml_not_qualifies: "HasSuffix (entry_name e) ''.yml'' \<Longrightarrow> \<not> qualifies (p, e)"
  by (cases e) (auto dest: HasSuffix_yml_not_yaml)

text \<open>
  Claim C5, as stated, fails: a symbolic link named \<^verbatim>\<open>link.yaml\<close> is not a regular
  file, and the walk collects it, since line 142 tests \<^verbatim>\<open>!info.IsDir()\<close> only.
\<close>

theorem C5_counterexample:
  "snd (Walk slash_join ''manifests''
          (Dir ''manifests'' [NonDir ''link.yaml'' Symlink, NonDir ''pod.yaml'' Regular])
          collect_yaml [])
     = [''manifests/link.yaml'', ''manifests/pod.yaml'']
   \<and> \<not> regular_file (''manifests/link.yaml'', NonDir ''link.yaml'' Symlink)"
  by (simp add: Walk_def slash_join_def HasSuffix_def)

text \<open>
  Claim C5, amended.  A directory walk appends, in the order of the traversal, exactly the paths
  of the entries met before its first error that are not directories (regular files, and also
  symbolic links and other special files) and whose name ends with the literal, case-sensitive
  suffix \<^verbatim>\<open>.yaml\<close>; without an error every entry is met.  An entry whose name ends with
  \<^verbatim>\<open>.yml\<close> never qualifies, so a walk never adds it.
\<close>

theorem C5_walk_collects_yaml:
  "Walk J root t collect_yaml files =
     (first_failure (entries J root t),
      files @ map fst (filter qualifies (visited (entries J root t))))
   \<and> (first_failure (entries J root t) = None \<longrightarrow> visited (entries J root t) = entries J root t)
   \<and> (qualifies (p, e) \<longleftrightarrow> (\<exists>n k. e = NonDir n k \<and> HasSuffix n ''.yaml''))
   \<and> (HasSuffix (entry_name e) ''.yml'' \<longrightarrow> \<not> qualifies (p, e))"
  using Walk_collect [of J root t files] visited_no_failure [of "entries J root t"]
    qualifies_iff [of p e] yml_not_qualifies [of e p]
  unfolding collected_def by blast

theorem C5_walk_collects_yaml_witness:
  "Walk slash_join ''d''
      (Dir ''d'' [NonDir ''POD.YAML'' Regular, NonDir ''a.yaml'' Regular, NonDir ''pod.yml'' Regular,
                  Dir ''sub.yaml'' [NonDir ''b.yaml'' Symlink, NonDir ''yaml'' Regular]])
      collect_yaml [''x'']
     = (None, [''x'', ''d/a.yaml'', ''d/sub.yaml/b.yaml''])
   \<and> HasSuffix (entry_name (NonDir ''pod.yml'' Regular)) ''.yml''
   \<and> \<not> qualifies (''d/pod.yml'', NonDir ''pod.yml'' Regular)"
  using C5_walk_collects_yaml
    [of slash_join "''d''"
        "Dir ''d'' [NonDir ''POD.YAML'' Regular, NonDir ''a.yaml'' Regular, NonDir ''pod.yml'' Regular,
                  Dir ''sub.yaml'' [NonDir ''b.yaml'' Symlink, NonDir ''yaml'' Regular]]"
        "[''x'']" "''d/pod.yml''" "NonDir ''pod.yml'' Regular"]
  by (simp add: slash_join_def HasSuffix_def visited_def fails_def)

lemma first_failure_split:
  "list_all (\<lambda>e. \<not> fails e) before \<Longrightarrow> entry_error t = Some err \<Longrightarrow>
   first_failure (before @ (p, t) # after) = Some err
   \<and> collected (before @ (p, t) # after) = map fst (filter qualifies before)"
  by (induction before) (auto simp: fails_def)

text \<open>
  Claim C10.  Within the walk of one directory the first error ends the traversal of that
  directory: the walk returns that error, the qualifying entries met before it stay in the file
  list, nothing that the traversal would have met after it is added, and the loop of
  \<^verbatim>\<open>aggregateFiles\<close> goes on with the remaining directories.
\<close>

theorem C10_walk_aborts_at_first_error:
  assumes "entries J d (fs d) = before @ (p, t) # after"
    and "list_all (\<lambda>e. \<not> fails e) before"
    and "entry_error t = Some err"
  shows "Walk J d (fs d) collect_yaml files = (Some err, files @ map fst (filter qualifies before))
    \<and> walk_directories J fs (d # rest) files allErrors =
        walk_directories J fs rest (files @ map fst (filter qualifies before)) (Append allErrors err)"
  using first_failure_split [OF assms(2,3), of p after] assms(1)
  by (simp add: Walk_collect)

theorem C10_walk_aborts_at_first_error_witness:
  "entries slash_join ''d'' (example_FS ''d'') =
     [(''d'', example_FS ''d''), (''d/a.yaml'', NonDir ''a.yaml'' Regular),
      (''d/sub'', Dir ''sub'' [NonDir ''b.yaml'' Regular,
          UnreadableDir ''locked'' ''open d/sub/locked: permission denied'',
          NonDir ''c.yaml'' Regular]),
      (''d/sub/b.yaml'', NonDir ''b.yaml'' Regular)]
     @ (''d/sub/locked'', UnreadableDir ''locked'' ''open d/sub/locked: permission denied'')
     # [(''d/sub/c.yaml'', NonDir ''c.yaml'' Regular), (''d/z.yaml'', NonDir ''z.yaml'' Regular)]
   \<and> Walk slash_join ''d'' (example_FS ''d'') collect_yaml [''x.yaml'']
       = (Some (OtherError ''open d/sub/locked: permission denied''),
          [''x.yaml'', ''d/a.yaml'', ''d/sub/b.yaml''])
   \<and> aggregateFiles slash_join example_FS [''d'', ''e''] [''x.yaml'']
       = ([''x.yaml'', ''d/a.yaml'', ''d/sub/b.yaml'', ''e/e.yaml''],
          Some (MultiError [OtherError ''open d/sub/locked: permission denied'']))"
proof -
  let ?sub = "Dir ''sub'' [NonDir ''b.yaml'' Regular,
          UnreadableDir ''locked'' ''open d/sub/locked: permission denied'',
          NonDir ''c.yaml'' Regular]"
  let ?before = "[(''d'', example_FS ''d''), (''d/a.yaml'', NonDir ''a.yaml'' Regular),
      (''d/sub'', ?sub), (''d/sub/b.yaml'', NonDir ''b.yaml'' Regular)]"
  let ?t = "UnreadableDir ''locked'' ''open d/sub/locked: permission denied''"
  let ?after = "[(''d/sub/c.yaml'', NonDir ''c.yaml'' Regular), (''d/z.yaml'', NonDir ''z.yaml'' Regular)]"
  have h1: "entries slash_join ''d'' (example_FS ''d'') = ?before @ (''d/sub/locked'', ?t) # ?after"
    by (simp add: example_FS_def slash_join_def)
  have h2: "list_all (\<lambda>e. \<not> fails e) ?before"
    by (simp add: example_FS_def)
  have h3: "entry_error ?t = Some (OtherError ''open d/sub/locked: permission denied'')"
    by simp
  have q: "map fst (filter qualifies ?before) = [''d/a.yaml'', ''d/sub/b.yaml'']"
    by (simp add: example_FS_def HasSuffix_def)
  have e: "walk_directories slash_join example_FS [''e''] [''x.yaml'', ''d/a.yaml'', ''d/sub/b.yaml'']
             (Some (MultiError [OtherError ''open d/sub/locked: permission denied'']))
           = ([''x.yaml'', ''d/a.yaml'', ''d/sub/b.yaml'', ''e/e.yaml''],
              Some (MultiError [OtherError ''open d/sub/locked: permission denied'']))"
    by (simp add: Walk_def example_FS_def slash_join_def HasSuffix_def)
  show ?thesis
    using C10_walk_aborts_at_first_error
      [where J = slash_join and d = "''d''" and fs = example_FS and files = "[''x.yaml'']"
         and rest = "[''e'']" and allErrors = None, OF h1 h2 h3] h1 q e
    by (simp add: aggregateFiles_def)
qed

end
